theory Spec2Isabelle
  imports Main "HOL-Library.Word"
begin

section \<open>Strings\<close>

text \<open>
  A JavaScript string is a sequence of UTF-16 code units; \<open>length\<close>, \<open>substring\<close>,
  \<open>split\<close> and \<open>trim\<close> all work on code units. The en dash U+2013 and the em dash
  U+2014 of the delimiter class are one code unit each.
\<close>

type_synonym jsstring = "16 word list"

definition js :: "string \<Rightarrow> jsstring" where
  "js s = map of_char s"

text \<open>The character class \<^verbatim>\<open>[:\-\<close> en dash, em dash \<^verbatim>\<open>]\<close> of both extractors.\<close>

definition isDelimiter :: "16 word \<Rightarrow> bool" where
  "isDelimiter c = (c = 58 \<or> c = 45 \<or> c = 8211 \<or> c = 8212)"

text \<open>
  \<^verbatim>\<open>p.split(/[:\-...]/)\<close>: the string is cut at every code unit of the class; the
  result always has one segment more than there are delimiters.
\<close>

fun split :: "jsstring \<Rightarrow> jsstring list" where
  "split [] = [[]]"
| "split (c # cs) =
     (if isDelimiter c then [] # split cs
      else (case split cs of [] \<Rightarrow> [[c]] | seg # segs \<Rightarrow> (c # seg) # segs))"

text \<open>
  \<^verbatim>\<open>String.prototype.trim\<close> strips the ECMAScript WhiteSpace and LineTerminator code
  units from both ends.
\<close>

definition isWhiteSpace :: "16 word \<Rightarrow> bool" where
  "isWhiteSpace c = (c \<in> set [9, 10, 11, 12, 13, 32, 160, 5760, 8192, 8193, 8194, 8195,
     8196, 8197, 8198, 8199, 8200, 8201, 8202, 8232, 8233, 8239, 8287, 12288, 65279])"

definition trim :: "jsstring \<Rightarrow> jsstring" where
  "trim s = rev (dropWhile isWhiteSpace (rev (dropWhile isWhiteSpace s)))"

text \<open>\<^verbatim>\<open>s.substring(0, n)\<close>.\<close>

definition substring0 :: "nat \<Rightarrow> jsstring \<Rightarrow> jsstring" where
  "substring0 n s = take n s"

section \<open>Input data (types.ts)\<close>

record studyNote =
  heading :: jsstring
  points :: "jsstring list"

record flashcard =
  front :: jsstring
  back' :: jsstring

record studyData =
  flashcards :: "flashcard list"
  clean_notes :: "studyNote list"

text \<open>The objects \<^verbatim>\<open>{ term, def }\<close> of both components.\<close>

record pair =
  pterm :: jsstring
  pdef :: jsstring

section \<open>Pair extraction of the Fact-Check game (KnowledgeDash.tsx, generateQuestion)\<close>

text \<open>The body of \<^verbatim>\<open>n.points.forEach(p => ...)\<close>: what one bullet point pushes.\<close>

definition pointPairs :: "jsstring \<Rightarrow> pair list" where
  "pointPairs p =
     (let parts = split p
      in if length parts \<ge> 2
         then [\<lparr>pterm = trim (parts ! 0), pdef = trim (parts ! 1)\<rparr>]
         else [])"

definition allPairs :: "studyData \<Rightarrow> pair list" where
  "allPairs d =
     map (\<lambda>f. \<lparr>pterm = front f, pdef = back' f\<rparr>) (flashcards d)
     @ concat (map (\<lambda>n. concat (map pointPairs (points n))) (clean_notes d))"

text \<open>
  The extraction rule in the specification's words, for comparison: cut at the first
  delimiter, the term is the trimmed text before it, the definition all the trimmed text
  after it, and a pair is emitted only when both are non-empty.
\<close>

definition spec_pointPairs :: "jsstring \<Rightarrow> pair list" where
  "spec_pointPairs p =
     (if \<exists>c \<in> set p. isDelimiter c
      then (let t = trim (takeWhile (\<lambda>c. \<not> isDelimiter c) p);
                d = trim (tl (dropWhile (\<lambda>c. \<not> isDelimiter c) p))
            in if t \<noteq> [] \<and> d \<noteq> [] then [\<lparr>pterm = t, pdef = d\<rparr>] else [])
      else [])"

section \<open>Pair extraction of the Matching game (Flashcard.tsx, initGame)\<close>

definition gamePointPairs :: "jsstring \<Rightarrow> pair list" where
  "gamePointPairs point =
     (let parts = split point
      in if length parts \<ge> 2 \<and> length (trim (parts ! 0)) < 40 \<and> length (trim (parts ! 1)) > 5
         then [\<lparr>pterm = trim (parts ! 0),
                pdef = substring0 100 (trim (parts ! 1))
                       @ (if length (trim (parts ! 1)) > 100 then js ''...'' else [])\<rparr>]
         else [])"

definition extractedPairs :: "studyNote list \<Rightarrow> pair list" where
  "extractedPairs notes = concat (map (\<lambda>note. concat (map gamePointPairs (points note))) notes)"

text \<open>The fallback loop over \<^verbatim>\<open>notes.slice(0, 4)\<close>.\<close>

definition fallbackPairs :: "studyNote list \<Rightarrow> pair list" where
  "fallbackPairs notes =
     concat (map (\<lambda>note. case points note of
                            [] \<Rightarrow> []
                          | p0 # _ \<Rightarrow> [\<lparr>pterm = heading note, pdef = substring0 100 p0\<rparr>])
                 (take 4 notes))"

text \<open>The array \<^verbatim>\<open>pairs\<close> of initGame before it is shuffled.\<close>

definition gamePairs :: "studyNote list \<Rightarrow> pair list" where
  "gamePairs notes =
     (let pairs = extractedPairs notes
      in if length pairs < 3 then pairs @ fallbackPairs notes else pairs)"

section \<open>Fact-Check game (KnowledgeDash.tsx)\<close>

record question =
  q_term :: jsstring
  q_definition :: jsstring
  isCorrect :: bool

text \<open>
  The values the generator takes from \<^verbatim>\<open>Math.random()\<close>: \<open>coin\<close> is the value of
  \<^verbatim>\<open>Math.random() > 0.5\<close>, \<open>drawA\<close> the random number behind the index of pairA, and
  \<open>drawB k\<close> the one behind the \<open>k\<close>-th draw of pairB (draw 0 is the initial one, the
  later ones are the redraws of the loop).
\<close>

record randomSource =
  coin :: bool
  drawA :: nat
  drawB :: "nat \<Rightarrow> nat"

text \<open>
  \<^verbatim>\<open>Math.floor(Math.random() * n)\<close> is an index below \<open>n\<close> for \<open>n > 0\<close>, and every such
  index can come out: the random number \<open>r\<close> is reduced into that range.
\<close>

definition randomIndex :: "nat \<Rightarrow> nat \<Rightarrow> nat" where
  "randomIndex r n = r mod n"

text \<open>
  The initial draw of pairB and the loop \<^verbatim>\<open>while (pairB.term === pairA.term)\<close>, from
  draw number \<open>k\<close> on. The loop need not end; then the value is \<open>None\<close>.
\<close>

partial_function (option) redraw :: "pair list \<Rightarrow> pair \<Rightarrow> (nat \<Rightarrow> nat) \<Rightarrow> nat \<Rightarrow> pair option" where
  "redraw pairs pairA draws k =
     (let pairB = pairs ! randomIndex (draws k) (length pairs)
      in if pterm pairB = pterm pairA then redraw pairs pairA draws (Suc k) else Some pairB)"

text \<open>
  \<open>None\<close>: the call does not return; \<open>Some None\<close>: it returns \<^verbatim>\<open>null\<close>;
  \<open>Some (Some q)\<close>: it returns the question \<open>q\<close>.
\<close>

definition generateQuestion :: "studyData \<Rightarrow> randomSource \<Rightarrow> question option option" where
  "generateQuestion d rnd =
     (let pairs = allPairs d
      in if length pairs < 2 then Some None
         else (let isCorrectMatch = coin rnd;
                   pairA = pairs ! randomIndex (drawA rnd) (length pairs)
               in if isCorrectMatch
                  then Some (Some \<lparr>q_term = pterm pairA, q_definition = pdef pairA, isCorrect = True\<rparr>)
                  else (case redraw pairs pairA (drawB rnd) 0 of
                          None \<Rightarrow> None
                        | Some pairB \<Rightarrow>
                            Some (Some \<lparr>q_term = pterm pairA, q_definition = pdef pairB,
                                       isCorrect = False\<rparr>))))"

datatype phase = Idle | Playing | Ended

datatype feedbackKind = Correct | Wrong

record dash =
  gameState :: phase
  currentQuestion :: "question option"
  score :: int
  streak :: int
  lives :: int
  timeLeft :: int
  feedback :: "feedbackKind option"

definition initialDash :: dash where
  "initialDash = \<lparr>gameState = Idle, currentQuestion = None, score = 0, streak = 0, lives = 3,
                   timeLeft = 30, feedback = None\<rparr>"

definition startGame :: "studyData \<Rightarrow> randomSource \<Rightarrow> dash \<Rightarrow> dash option" where
  "startGame d rnd s =
     (case generateQuestion d rnd of
        None \<Rightarrow> None
      | Some q \<Rightarrow> Some (s\<lparr>score := 0, streak := 0, lives := 3, timeLeft := 30,
                          gameState := Playing, currentQuestion := q\<rparr>))"

text \<open>
  What the callback handed to \<^verbatim>\<open>setTimeout\<close> in handleAnswer closes over: the values of
  \<^verbatim>\<open>lives\<close>, \<^verbatim>\<open>answer\<close> and \<^verbatim>\<open>currentQuestion\<close> at the time of the answer.
\<close>

record settleTimeout =
  seenLives :: int
  seenAnswer :: bool
  seenQuestion :: question

text \<open>handleAnswer: the new state and the callback scheduled for 600 ms later, if any.\<close>

definition handleAnswer :: "dash \<Rightarrow> bool \<Rightarrow> dash \<times> settleTimeout option" where
  "handleAnswer s answer =
     (case currentQuestion s of
        None \<Rightarrow> (s, None)
      | Some q \<Rightarrow>
          if feedback s \<noteq> None then (s, None)
          else ((if answer = isCorrect q
                 then s\<lparr>score := score s + 10 * (streak s + 1), streak := streak s + 1,
                        feedback := Some Correct\<rparr>
                 else s\<lparr>lives := lives s - 1, streak := 0, feedback := Some Wrong\<rparr>),
                Some \<lparr>seenLives = lives s, seenAnswer = answer, seenQuestion = q\<rparr>))"

text \<open>
  The scheduled callback, run on the state \<open>s\<close> of the time it fires. It does not return
  when it calls generateQuestion and that call does not return.
\<close>

definition settle :: "studyData \<Rightarrow> randomSource \<Rightarrow> settleTimeout \<Rightarrow> dash \<Rightarrow> dash option" where
  "settle d rnd cb s =
     (if seenLives cb \<le> (if seenAnswer cb = isCorrect (seenQuestion cb) then 0 else 1)
      then Some (s\<lparr>feedback := None, gameState := Ended\<rparr>)
      else (case generateQuestion d rnd of
              None \<Rightarrow> None
            | Some q \<Rightarrow> Some (s\<lparr>feedback := None, currentQuestion := q\<rparr>)))"

text \<open>The updater passed to \<^verbatim>\<open>setTimeLeft\<close> by the interval callback.\<close>

definition countdown :: "dash \<Rightarrow> dash" where
  "countdown s =
     (if timeLeft s \<le> 1 then s\<lparr>gameState := Ended, timeLeft := 0\<rparr>
      else s\<lparr>timeLeft := timeLeft s - 1\<rparr>)"

text \<open>
  One second passing: the effect installs the interval only while the game is playing and
  time is left.
\<close>

definition tick :: "dash \<Rightarrow> dash" where
  "tick s = (if gameState s = Playing \<and> timeLeft s > 0 then countdown s else s)"

section \<open>Matching game (Flashcard.tsx, MemoryGame)\<close>

datatype cardType = TermCard | DefinitionCard

record gameCard =
  card_id :: int
  content :: jsstring
  card_type :: cardType
  pairId :: int
  isFlipped :: bool
  isMatched :: bool

record memoryGame =
  cards :: "gameCard list"
  flippedCards :: "int list"
  matches :: int
  moves :: int

datatype error = TypeError | SyntaxError

text \<open>The two callbacks handleCardClick can schedule: after 600 ms and after 1200 ms.\<close>

datatype timeout = MatchTimeout int int | MismatchTimeout

definition findCard :: "gameCard list \<Rightarrow> int \<Rightarrow> gameCard option" where
  "findCard cs i = find (\<lambda>c. card_id c = i) cs"

definition pairCards :: "nat \<Rightarrow> pair \<Rightarrow> gameCard list" where
  "pairCards idx p =
     [\<lparr>card_id = int idx * 2, content = pterm p, card_type = TermCard, pairId = int idx,
       isFlipped = False, isMatched = False\<rparr>,
      \<lparr>card_id = int idx * 2 + 1, content = pdef p, card_type = DefinitionCard, pairId = int idx,
       isFlipped = False, isMatched = False\<rparr>]"

text \<open>
  initGame. The two calls \<^verbatim>\<open>sort(() => 0.5 - Math.random())\<close> rearrange their array in a
  way the source does not determine; they are the parameters \<open>shufflePairs\<close> and
  \<open>shuffleCards\<close>.
\<close>

definition initGame ::
  "(pair list \<Rightarrow> pair list) \<Rightarrow> (gameCard list \<Rightarrow> gameCard list) \<Rightarrow> studyNote list \<Rightarrow> memoryGame" where
  "initGame shufflePairs shuffleCards notes =
     (let selectedPairs = take 4 (shufflePairs (gamePairs notes));
          gameCards = concat (map (\<lambda>(idx, p). pairCards idx p) (enumerate 0 selectedPairs))
      in \<lparr>cards = shuffleCards gameCards, flippedCards = [], matches = 0, moves = 0\<rparr>)"

text \<open>
  handleCardClick: the state after the click, and what else the handler did: scheduled a
  callback, nothing, or threw on reading \<^verbatim>\<open>pairId\<close> of a card that \<^verbatim>\<open>find\<close> did not find
  (the state updates made before stay queued).
\<close>

definition handleCardClick :: "memoryGame \<Rightarrow> int \<Rightarrow> memoryGame \<times> (error + timeout option)" where
  "handleCardClick s i =
     (if length (flippedCards s) = 2
         \<or> (case findCard (cards s) i of None \<Rightarrow> False | Some c \<Rightarrow> isMatched c)
         \<or> i \<in> set (flippedCards s)
      then (s, Inr None)
      else (let newFlipped = flippedCards s @ [i]
            in if length newFlipped = 2
               then (let s' = s\<lparr>flippedCards := newFlipped, moves := moves s + 1\<rparr>
                     in case (findCard (cards s) (newFlipped ! 0), findCard (cards s) (newFlipped ! 1)) of
                          (Some first, Some second) \<Rightarrow>
                            if pairId first = pairId second
                            then (s', Inr (Some (MatchTimeout (card_id first) (card_id second))))
                            else (s', Inr (Some MismatchTimeout))
                        | _ \<Rightarrow> (s', Inl TypeError))
               else (s\<lparr>flippedCards := newFlipped\<rparr>, Inr None)))"

definition fire :: "timeout \<Rightarrow> memoryGame \<Rightarrow> memoryGame" where
  "fire t s =
     (case t of
        MatchTimeout firstId secondId \<Rightarrow>
          s\<lparr>cards := map (\<lambda>c. if card_id c = firstId \<or> card_id c = secondId
                               then c\<lparr>isMatched := True\<rparr> else c) (cards s),
            flippedCards := [],
            matches := matches s + 1\<rparr>
      | MismatchTimeout \<Rightarrow> s\<lparr>flippedCards := []\<rparr>)"

text \<open>
  The events of the component: a click on a tile, a scheduled callback firing, and initGame
  running again (restart button, or the notes changed).
\<close>

datatype event =
    Click int
  | Fire timeout
  | Init "pair list \<Rightarrow> pair list" "gameCard list \<Rightarrow> gameCard list" "studyNote list"

fun step :: "memoryGame \<Rightarrow> event \<Rightarrow> memoryGame" where
  "step s (Click i) = fst (handleCardClick s i)"
| "step s (Fire t) = fire t s"
| "step s (Init shufflePairs shuffleCards notes) = initGame shufflePairs shuffleCards notes"

definition run :: "memoryGame \<Rightarrow> event list \<Rightarrow> memoryGame" where
  "run s evs = foldl step s evs"

section \<open>Practice session (ExamView.tsx)\<close>

record mcqQuestion =
  mcq_question :: jsstring
  options :: "jsstring list"
  correct_answer :: jsstring

record shortQuestion =
  short_question :: jsstring
  short_answer :: jsstring

record examQuestions =
  mcq :: "mcqQuestion list"
  short :: "shortQuestion list"

record practice =
  selectedOptions :: "nat \<rightharpoonup> jsstring"
  shortAnswers :: "nat \<rightharpoonup> jsstring"
  revealedShort :: "nat \<rightharpoonup> bool"
  showOverallAnswers :: bool

definition handleOptionClick :: "examQuestions \<Rightarrow> practice \<Rightarrow> nat \<Rightarrow> jsstring \<Rightarrow> error + practice" where
  "handleOptionClick questions s qIdx opt =
     (if showOverallAnswers s then Inr s
      else if qIdx < length (mcq questions)
      then Inr (s\<lparr>selectedOptions := (selectedOptions s)(qIdx \<mapsto> opt)\<rparr>)
      else Inl TypeError)"

definition changeShortAnswer :: "practice \<Rightarrow> nat \<Rightarrow> jsstring \<Rightarrow> practice" where
  "changeShortAnswer s idx v = s\<lparr>shortAnswers := (shortAnswers s)(idx \<mapsto> v)\<rparr>"

definition toggleShortReveal :: "practice \<Rightarrow> nat \<Rightarrow> practice" where
  "toggleShortReveal s qIdx =
     s\<lparr>revealedShort := (revealedShort s)(qIdx \<mapsto> revealedShort s qIdx \<noteq> Some True)\<rparr>"

definition resetPractice :: "practice \<Rightarrow> practice" where
  "resetPractice s = \<lparr>selectedOptions = Map.empty, shortAnswers = Map.empty,
                       revealedShort = Map.empty, showOverallAnswers = False\<rparr>"

text \<open>The click handler of the Show Answers / Hide Answers button.\<close>

definition toggleShowAnswers :: "practice \<Rightarrow> practice" where
  "toggleShowAnswers s = s\<lparr>showOverallAnswers := \<not> showOverallAnswers s\<rparr>"

text \<open>What the render derives from the state, per question.\<close>

definition hasAnswered :: "practice \<Rightarrow> nat \<Rightarrow> bool" where
  "hasAnswered s idx =
     ((case selectedOptions s idx of None \<Rightarrow> False | Some sel \<Rightarrow> sel \<noteq> []) \<or> showOverallAnswers s)"

datatype mark = NoMark | RightMark | WrongMark

definition questionMark :: "mcqQuestion \<Rightarrow> practice \<Rightarrow> nat \<Rightarrow> mark" where
  "questionMark q s idx =
     (if hasAnswered s idx \<and> \<not> showOverallAnswers s
      then (if selectedOptions s idx = Some (correct_answer q) then RightMark else WrongMark)
      else NoMark)"

datatype colour = Slate | Green | Red

definition optionColour :: "mcqQuestion \<Rightarrow> practice \<Rightarrow> nat \<Rightarrow> jsstring \<Rightarrow> colour" where
  "optionColour q s idx opt =
     (if showOverallAnswers s then (if opt = correct_answer q then Green else Slate)
      else if selectedOptions s idx = Some opt
      then (if selectedOptions s idx = Some (correct_answer q) then Green else Red)
      else Slate)"

definition optionDisabled :: "practice \<Rightarrow> nat \<Rightarrow> bool" where
  "optionDisabled s idx = (hasAnswered s idx \<and> \<not> showOverallAnswers s)"

definition isRevealed :: "practice \<Rightarrow> nat \<Rightarrow> bool" where
  "isRevealed s idx = (revealedShort s idx = Some True \<or> showOverallAnswers s)"

section \<open>Daily usage (App)\<close>

record usage =
  count :: int
  lastDate :: jsstring

definition DAILY_LIMIT :: int where
  "DAILY_LIMIT = 5"

text \<open>
  The item \<^verbatim>\<open>study_buddy_usage\<close> of the local storage, by what the initializer does
  with it: absent (\<^verbatim>\<open>getItem\<close> gives null); the empty string; a non-empty string that
  \<^verbatim>\<open>JSON.parse\<close> rejects; the JSON text \<^verbatim>\<open>null\<close>; the JSON text of any other value
  that has no \<^verbatim>\<open>lastDate\<close> property (a number, a string, a boolean, an array, an object
  without that field); the JSON text of an object with a numeric count and a string
  lastDate, which is what the component writes.
\<close>

datatype storedUsage = NoItem | EmptyItem | Unparsable | ParsedNull | ParsedOther | Stored usage

text \<open>
  The initializer of dailyUsage: \<^verbatim>\<open>if (saved)\<close> skips an absent or empty item,
  \<^verbatim>\<open>JSON.parse\<close> throws on a string it rejects, reading \<^verbatim>\<open>parsed.lastDate\<close> throws on
  null and gives undefined, which is not today, on a value without that property.
\<close>

definition loadUsage :: "storedUsage \<Rightarrow> jsstring \<Rightarrow> error + usage" where
  "loadUsage saved today =
     (case saved of
        NoItem \<Rightarrow> Inr \<lparr>count = 0, lastDate = today\<rparr>
      | EmptyItem \<Rightarrow> Inr \<lparr>count = 0, lastDate = today\<rparr>
      | Unparsable \<Rightarrow> Inl SyntaxError
      | ParsedNull \<Rightarrow> Inl TypeError
      | ParsedOther \<Rightarrow> Inr \<lparr>count = 0, lastDate = today\<rparr>
      | Stored parsed \<Rightarrow>
          if lastDate parsed = today then Inr parsed else Inr \<lparr>count = 0, lastDate = today\<rparr>)"

text \<open>checkLimit returns false, and shows the limit error, when the session may not start.\<close>

definition checkLimit :: "usage \<Rightarrow> jsstring \<Rightarrow> bool" where
  "checkLimit dailyUsage today =
     (if lastDate dailyUsage = today \<and> count dailyUsage \<ge> DAILY_LIMIT then False else True)"

definition incrementUsage :: "usage \<Rightarrow> jsstring \<Rightarrow> usage" where
  "incrementUsage prev today =
     \<lparr>count = (if lastDate prev = today then count prev + 1 else 1), lastDate = today\<rparr>"

text \<open>
  The two ways to start a session. The Analyze button of the paste mode is disabled when
  the pasted text trims to nothing or the count has reached the limit; the upload area
  ignores the pointer when the count has reached the limit. Neither looks at the date.
\<close>

definition analyzeDisabled :: "jsstring \<Rightarrow> usage \<Rightarrow> bool" where
  "analyzeDisabled pastedContent dailyUsage =
     (trim pastedContent = [] \<or> count dailyUsage \<ge> DAILY_LIMIT)"

definition uploadInert :: "usage \<Rightarrow> bool" where
  "uploadInert dailyUsage = (count dailyUsage \<ge> DAILY_LIMIT)"

text \<open>
  A click on either: nothing happens on a disabled control; otherwise the handler
  (startAnalysis, handleFileUpload) first calls checkLimit and returns at once, with the
  limit error shown, when it gives false.
\<close>

datatype attempt = NotClickable | LimitError | Proceeds

definition clickAnalyze :: "jsstring \<Rightarrow> usage \<Rightarrow> jsstring \<Rightarrow> attempt" where
  "clickAnalyze pastedContent dailyUsage today =
     (if analyzeDisabled pastedContent dailyUsage then NotClickable
      else if checkLimit dailyUsage today then Proceeds else LimitError)"

definition clickUpload :: "usage \<Rightarrow> jsstring \<Rightarrow> attempt" where
  "clickUpload dailyUsage today =
     (if uploadInert dailyUsage then NotClickable
      else if checkLimit dailyUsage today then Proceeds else LimitError)"

section \<open>Facts about splitting\<close>

lemma split_unfold:
  "split s = takeWhile (\<lambda>c. \<not> isDelimiter c) s
             # (case dropWhile (\<lambda>c. \<not> isDelimiter c) s of [] \<Rightarrow> [] | d # rest \<Rightarrow> split rest)"
  by (induction s) simp_all

lemma split_first: "split s ! 0 = takeWhile (\<lambda>c. \<not> isDelimiter c) s"
  by (subst split_unfold) simp

lemma split_has_second: "2 \<le> length (split s) \<longleftrightarrow> (\<exists>c \<in> set s. isDelimiter c)"
proof -
  have "2 \<le> length (split s) \<longleftrightarrow> dropWhile (\<lambda>c. \<not> isDelimiter c) s \<noteq> []"
  proof (cases "dropWhile (\<lambda>c. \<not> isDelimiter c) s")
    case Nil
    then show ?thesis by (subst split_unfold) (simp del: dropWhile_eq_Nil_conv)
  next
    case (Cons d rest)
    have "split rest \<noteq> []" by (subst split_unfold) simp
    then have "1 \<le> length (split rest)" by (cases "split rest") simp_all
    with Cons show ?thesis by (subst split_unfold) (simp del: dropWhile_eq_Nil_conv)
  qed
  then show ?thesis by auto
qed

lemma split_second:
  assumes "\<exists>c \<in> set s. isDelimiter c"
  shows "split s ! Suc 0 = takeWhile (\<lambda>c. \<not> isDelimiter c) (tl (dropWhile (\<lambda>c. \<not> isDelimiter c) s))"
proof -
  from assms have "dropWhile (\<lambda>c. \<not> isDelimiter c) s \<noteq> []"
    by auto
  then obtain d rest where dr: "dropWhile (\<lambda>c. \<not> isDelimiter c) s = d # rest"
    by (cases "dropWhile (\<lambda>c. \<not> isDelimiter c) s") auto
  have "split s ! Suc 0 = split rest ! 0"
    by (subst split_unfold) (simp add: dr)
  then show ?thesis by (simp add: split_first dr)
qed

section \<open>The Fact-Check extractor\<close>

text \<open>
  C2, as the code has it: a bullet point yields exactly one pair if and only if it contains
  a delimiter, and none otherwise; the term is the trimmed text before the first delimiter
  and the definition is the trimmed text between the first delimiter and the next one (or
  the end of the string). Neither segment has to be non-empty.
\<close>

theorem pointPairs_first_two_segments:
  "pointPairs p =
     (if \<exists>c \<in> set p. isDelimiter c
      then [\<lparr>pterm = trim (takeWhile (\<lambda>c. \<not> isDelimiter c) p),
             pdef = trim (takeWhile (\<lambda>c. \<not> isDelimiter c)
                            (tl (dropWhile (\<lambda>c. \<not> isDelimiter c) p)))\<rparr>]
      else [])"
proof (cases "\<exists>c \<in> set p. isDelimiter c")
  case True
  then have "2 \<le> length (split p)" by (simp add: split_has_second)
  with True show ?thesis
    by (simp add: pointPairs_def Let_def split_first split_second)
next
  case False
  then have "\<not> 2 \<le> length (split p)" by (simp add: split_has_second)
  with False show ?thesis by (simp add: pointPairs_def Let_def)
qed

theorem pointPairs_first_two_segments_witness:
  "pointPairs (js ''Cell - unit: of life'') = [\<lparr>pterm = js ''Cell'', pdef = js ''unit''\<rparr>]
   \<and> pointPairs (js ''no delimiter here'') = []"
  using pointPairs_first_two_segments [of "js ''Cell - unit: of life''"]
    pointPairs_first_two_segments [of "js ''no delimiter here''"]
  by (simp add: js_def isDelimiter_def trim_def isWhiteSpace_def)

text \<open>
  C2, as the specification words it, fails on the code: the bullet \<open>:b\<close> has an empty term
  and still yields a pair, and for \<open>a:b:c\<close> the definition is \<open>b\<close>, not all the text
  \<open>b:c\<close> after the first delimiter.
\<close>

theorem pointPairs_counterexample:
  "pointPairs (js '':b'') = [\<lparr>pterm = [], pdef = js ''b''\<rparr>]
   \<and> spec_pointPairs (js '':b'') = []
   \<and> pointPairs (js ''a:b:c'') = [\<lparr>pterm = js ''a'', pdef = js ''b''\<rparr>]
   \<and> spec_pointPairs (js ''a:b:c'') = [\<lparr>pterm = js ''a'', pdef = js ''b:c''\<rparr>]"
  by (simp add: pointPairs_def spec_pointPairs_def js_def isDelimiter_def trim_def
      isWhiteSpace_def)

section \<open>The Matching extractor\<close>

lemma fallbackPairs_filter:
  "fallbackPairs notes =
     map (\<lambda>n. \<lparr>pterm = heading n, pdef = take 100 (hd (points n))\<rparr>)
         (filter (\<lambda>n. points n \<noteq> []) (take 4 notes))"
proof -
  have "concat (map (\<lambda>note. case points note of [] \<Rightarrow> []
                          | p0 # _ \<Rightarrow> [\<lparr>pterm = heading note, pdef = substring0 100 p0\<rparr>]) ns)
        = map (\<lambda>n. \<lparr>pterm = heading n, pdef = take 100 (hd (points n))\<rparr>)
              (filter (\<lambda>n. points n \<noteq> []) ns)" for ns :: "studyNote list"
    by (induction ns) (auto simp: substring0_def split: list.splits)
  then show ?thesis by (simp add: fallbackPairs_def)
qed

lemma fallbackPairs_length: "length (fallbackPairs notes) \<le> 4"
proof -
  have "length (filter (\<lambda>n. points n \<noteq> []) (take 4 notes)) \<le> length (take 4 notes)"
    by (rule length_filter_le)
  then show ?thesis by (simp add: fallbackPairs_filter)
qed

text \<open>
  C8, as the code has it: a bullet yields a pair exactly when it contains a delimiter, the
  trimmed term is shorter than 40 code units and the trimmed text between the first two
  delimiters is longer than 5 code units; the definition is that text, cut to 100 code
  units with \<open>...\<close> appended when it was longer. When fewer than 3 pairs came out,
  each of the first 4 notes that has a point adds the pair of its heading and the first
  100 code units of its first point, after the pairs already found.
\<close>

theorem gamePairs_extraction:
  "gamePointPairs p =
     (let t = trim (takeWhile (\<lambda>c. \<not> isDelimiter c) p);
          d = trim (takeWhile (\<lambda>c. \<not> isDelimiter c) (tl (dropWhile (\<lambda>c. \<not> isDelimiter c) p)))
      in if (\<exists>c \<in> set p. isDelimiter c) \<and> length t < 40 \<and> length d > 5
         then [\<lparr>pterm = t, pdef = take 100 d @ (if length d > 100 then js ''...'' else [])\<rparr>]
         else [])
   \<and> gamePairs notes =
       (if length (extractedPairs notes) < 3
        then extractedPairs notes
             @ map (\<lambda>n. \<lparr>pterm = heading n, pdef = take 100 (hd (points n))\<rparr>)
                   (filter (\<lambda>n. points n \<noteq> []) (take 4 notes))
        else extractedPairs notes)
   \<and> length (fallbackPairs notes) \<le> 4"
proof -
  have a: "gamePointPairs p =
     (let t = trim (takeWhile (\<lambda>c. \<not> isDelimiter c) p);
          d = trim (takeWhile (\<lambda>c. \<not> isDelimiter c) (tl (dropWhile (\<lambda>c. \<not> isDelimiter c) p)))
      in if (\<exists>c \<in> set p. isDelimiter c) \<and> length t < 40 \<and> length d > 5
         then [\<lparr>pterm = t, pdef = take 100 d @ (if length d > 100 then js ''...'' else [])\<rparr>]
         else [])"
  proof (cases "\<exists>c \<in> set p. isDelimiter c")
    case True
    then have "2 \<le> length (split p)" by (simp add: split_has_second)
    with True show ?thesis
      by (simp add: gamePointPairs_def Let_def split_first split_second substring0_def)
  next
    case False
    then have "\<not> 2 \<le> length (split p)" by (simp add: split_has_second)
    with False show ?thesis by (simp add: gamePointPairs_def Let_def)
  qed
  have b: "gamePairs notes =
       (if length (extractedPairs notes) < 3
        then extractedPairs notes
             @ map (\<lambda>n. \<lparr>pterm = heading n, pdef = take 100 (hd (points n))\<rparr>)
                   (filter (\<lambda>n. points n \<noteq> []) (take 4 notes))
        else extractedPairs notes)"
    by (simp add: gamePairs_def Let_def fallbackPairs_filter)
  from a b fallbackPairs_length show ?thesis by blast
qed

theorem gamePairs_extraction_witness:
  "gamePointPairs (js ''Osmosis - water crossing a membrane'')
     = [\<lparr>pterm = js ''Osmosis'', pdef = js ''water crossing a membrane''\<rparr>]
   \<and> gamePairs [\<lparr>heading = js ''Cells'', points = [js ''Osmosis - water crossing a membrane'', js ''plain'']\<rparr>,
                \<lparr>heading = js ''Empty'', points = []\<rparr>]
     = [\<lparr>pterm = js ''Osmosis'', pdef = js ''water crossing a membrane''\<rparr>,
        \<lparr>pterm = js ''Cells'', pdef = js ''Osmosis - water crossing a membrane''\<rparr>]"
  using gamePairs_extraction [of "js ''Osmosis - water crossing a membrane''"
      "[\<lparr>heading = js ''Cells'', points = [js ''Osmosis - water crossing a membrane'', js ''plain'']\<rparr>,
        \<lparr>heading = js ''Empty'', points = []\<rparr>]"]
  by (simp add: js_def isDelimiter_def trim_def isWhiteSpace_def extractedPairs_def
      gamePointPairs_def)

text \<open>
  C8, as the specification words it, fails on the code: the bullet \<open>ab: cd\<close> splits and has
  a two-unit term, yet yields no pair, because its definition is not longer than 5 units;
  a term of exactly 40 units does not exceed 40 and is rejected all the same; and the
  fallback definition of a 101-unit first point is not that point but its first 100 units.
\<close>

theorem gamePairs_counterexample:
  "gamePointPairs (js ''ab: cd'') = []
   \<and> 2 \<le> length (split (js ''ab: cd''))
   \<and> length (trim (split (js ''ab: cd'') ! 0)) \<le> 40
   \<and> gamePointPairs (js ''aaaaaaaaaaaaaaaaaaaaaaaaaaaaaaaaaaaaaaaa: a forty unit term'') = []
   \<and> length (trim (split (js ''aaaaaaaaaaaaaaaaaaaaaaaaaaaaaaaaaaaaaaaa: a forty unit term'') ! 0)) = 40
   \<and> gamePairs [\<lparr>heading = js ''H'', points = [replicate 101 120]\<rparr>]
       = [\<lparr>pterm = js ''H'', pdef = replicate 100 120\<rparr>]"
proof -
  have "gamePairs [\<lparr>heading = js ''H'', points = [replicate 101 120]\<rparr>]
          = [\<lparr>pterm = js ''H'', pdef = replicate 100 120\<rparr>]"
    by code_simp
  then show ?thesis
    by (simp add: gamePointPairs_def js_def isDelimiter_def trim_def isWhiteSpace_def)
qed

section \<open>The question generator\<close>

lemma redraw_result_imp:
  "redraw ps a draws k = Some b \<Longrightarrow> ps \<noteq> [] \<longrightarrow> b \<in> set ps \<and> pterm b \<noteq> pterm a"
proof (rule redraw.raw_induct
    [where P = "\<lambda>ps a draws k b. ps \<noteq> [] \<longrightarrow> b \<in> set ps \<and> pterm b \<noteq> pterm a"])
  fix f :: "pair list \<Rightarrow> pair \<Rightarrow> (nat \<Rightarrow> nat) \<Rightarrow> nat \<Rightarrow> pair option"
  fix ps a draws k b
  assume IH: "\<And>ps a draws k b. f ps a draws k = Some b
                \<Longrightarrow> ps \<noteq> [] \<longrightarrow> b \<in> set ps \<and> pterm b \<noteq> pterm a"
  assume body: "(let pairB = ps ! randomIndex (draws k) (length ps)
                 in if pterm pairB = pterm a then f ps a draws (Suc k) else Some pairB) = Some b"
  show "ps \<noteq> [] \<longrightarrow> b \<in> set ps \<and> pterm b \<noteq> pterm a"
  proof (cases "pterm (ps ! randomIndex (draws k) (length ps)) = pterm a")
    case True
    with body have "f ps a draws (Suc k) = Some b" by (simp add: Let_def)
    then show ?thesis by (rule IH)
  next
    case False
    with body have b: "b = ps ! randomIndex (draws k) (length ps)" by (simp add: Let_def)
    show ?thesis
    proof
      assume "ps \<noteq> []"
      then have "randomIndex (draws k) (length ps) < length ps"
        by (simp add: randomIndex_def)
      with b False show "b \<in> set ps \<and> pterm b \<noteq> pterm a" by simp
    qed
  qed
qed

lemma redraw_result:
  assumes "redraw ps a draws k = Some b" and "ps \<noteq> []"
  shows "b \<in> set ps \<and> pterm b \<noteq> pterm a"
  using redraw_result_imp [OF assms(1)] assms(2) by simp

lemma redraw_equal_terms:
  assumes "\<forall>p \<in> set ps. pterm p = pterm a" and "ps \<noteq> []"
  shows "redraw ps a draws k = None"
proof (cases "redraw ps a draws k")
  case None
  then show ?thesis .
next
  case (Some b)
  with assms redraw_result [OF Some] show ?thesis by blast
qed

text \<open>
  C6: whenever generateQuestion returns a question that is not a correct match, its
  definition is the definition of a pool pair whose term differs from the question's term;
  in particular, for the pool A/1, B/2, C/3 a false question about \<open>A\<close> never shows
  definition \<open>1\<close>.
\<close>

theorem generateQuestion_mismatch:
  "(generateQuestion d rnd = Some (Some q) \<and> \<not> isCorrect q
      \<longrightarrow> (\<exists>p \<in> set (allPairs d). pdef p = q_definition q \<and> pterm p \<noteq> q_term q))
   \<and> (generateQuestion
         \<lparr>flashcards = [\<lparr>front = js ''A'', back' = js ''1''\<rparr>, \<lparr>front = js ''B'', back' = js ''2''\<rparr>,
                        \<lparr>front = js ''C'', back' = js ''3''\<rparr>], clean_notes = []\<rparr> rnd = Some (Some q)
       \<and> \<not> isCorrect q \<and> q_term q = js ''A''
      \<longrightarrow> q_definition q \<noteq> js ''1'')"
proof -
  have gen: "\<exists>p \<in> set (allPairs d). pdef p = q_definition q \<and> pterm p \<noteq> q_term q"
    if g: "generateQuestion d rnd = Some (Some q)" and f: "\<not> isCorrect q" for d rnd q
  proof -
    let ?ps = "allPairs d"
    let ?a = "?ps ! randomIndex (drawA rnd) (length ?ps)"
    from g have len: "\<not> length ?ps < 2"
      by (auto simp: generateQuestion_def Let_def)
    then have ne: "?ps \<noteq> []" by auto
    from g f len have nc: "\<not> coin rnd"
      by (auto simp: generateQuestion_def Let_def)
    from g len nc obtain b where b: "redraw ?ps ?a (drawB rnd) 0 = Some b"
      and q: "q = \<lparr>q_term = pterm ?a, q_definition = pdef b, isCorrect = False\<rparr>"
      by (auto simp: generateQuestion_def Let_def split: option.splits)
    from redraw_result [OF b ne] q show ?thesis by auto
  qed
  have abc: "q_definition q \<noteq> js ''1''"
    if g: "generateQuestion
         \<lparr>flashcards = [\<lparr>front = js ''A'', back' = js ''1''\<rparr>, \<lparr>front = js ''B'', back' = js ''2''\<rparr>,
                        \<lparr>front = js ''C'', back' = js ''3''\<rparr>], clean_notes = []\<rparr> rnd = Some (Some q)"
      and f: "\<not> isCorrect q" and t: "q_term q = js ''A''"
  proof -
    from gen [OF g f] t show ?thesis
      by (auto simp: allPairs_def js_def)
  qed
  from gen abc show ?thesis by blast
qed

theorem generateQuestion_mismatch_witness:
  "generateQuestion
     \<lparr>flashcards = [\<lparr>front = js ''A'', back' = js ''1''\<rparr>, \<lparr>front = js ''B'', back' = js ''2''\<rparr>,
                    \<lparr>front = js ''C'', back' = js ''3''\<rparr>], clean_notes = []\<rparr>
     \<lparr>coin = False, drawA = 0, drawB = (\<lambda>k. k)\<rparr>
   = Some (Some \<lparr>q_term = js ''A'', q_definition = js ''2'', isCorrect = False\<rparr>)
   \<and> (\<exists>p \<in> set (allPairs \<lparr>flashcards = [\<lparr>front = js ''A'', back' = js ''1''\<rparr>,
          \<lparr>front = js ''B'', back' = js ''2''\<rparr>, \<lparr>front = js ''C'', back' = js ''3''\<rparr>], clean_notes = []\<rparr>).
         pdef p = js ''2'' \<and> pterm p \<noteq> js ''A'')
   \<and> js ''2'' \<noteq> js ''1''"
proof -
  have g: "generateQuestion
     \<lparr>flashcards = [\<lparr>front = js ''A'', back' = js ''1''\<rparr>, \<lparr>front = js ''B'', back' = js ''2''\<rparr>,
                    \<lparr>front = js ''C'', back' = js ''3''\<rparr>], clean_notes = []\<rparr>
     \<lparr>coin = False, drawA = 0, drawB = (\<lambda>k. k)\<rparr>
   = Some (Some \<lparr>q_term = js ''A'', q_definition = js ''2'', isCorrect = False\<rparr>)"
  proof -
    have "redraw [\<lparr>pterm = js ''A'', pdef = js ''1''\<rparr>, \<lparr>pterm = js ''B'', pdef = js ''2''\<rparr>,
                  \<lparr>pterm = js ''C'', pdef = js ''3''\<rparr>] \<lparr>pterm = js ''A'', pdef = js ''1''\<rparr> (\<lambda>k. k) 0
          = Some \<lparr>pterm = js ''B'', pdef = js ''2''\<rparr>"
      apply (subst redraw.simps)
      apply (simp add: randomIndex_def)
      apply (subst redraw.simps)
      apply (simp add: randomIndex_def js_def)
      done
    then show ?thesis
      by (simp add: generateQuestion_def allPairs_def randomIndex_def)
  qed
  with generateQuestion_mismatch [of
      "\<lparr>flashcards = [\<lparr>front = js ''A'', back' = js ''1''\<rparr>, \<lparr>front = js ''B'', back' = js ''2''\<rparr>,
                    \<lparr>front = js ''C'', back' = js ''3''\<rparr>], clean_notes = []\<rparr>"
      "\<lparr>coin = False, drawA = 0, drawB = (\<lambda>k. k)\<rparr>"
      "\<lparr>q_term = js ''A'', q_definition = js ''2'', isCorrect = False\<rparr>"]
  show ?thesis by simp
qed

text \<open>
  The loop does end as soon as some draw hits a pair whose term differs from pairA's.
\<close>

lemma redraw_returns:
  assumes "pterm (ps ! randomIndex (draws (k + j)) (length ps)) \<noteq> pterm a"
  shows "\<exists>b. redraw ps a draws k = Some b"
  using assms
proof (induction j arbitrary: k)
  case 0
  then show ?case by (subst redraw.simps) (simp add: Let_def)
next
  case (Suc j)
  show ?case
  proof (cases "pterm (ps ! randomIndex (draws k) (length ps)) = pterm a")
    case True
    from Suc.prems have "pterm (ps ! randomIndex (draws (Suc k + j)) (length ps)) \<noteq> pterm a"
      by simp
    then obtain b where "redraw ps a draws (Suc k) = Some b"
      using Suc.IH by blast
    with True show ?thesis by (subst redraw.simps) (simp add: Let_def)
  next
    case False
    then show ?thesis by (subst redraw.simps) (simp add: Let_def)
  qed
qed

lemma generateQuestion_equal_terms:
  assumes "2 \<le> length (allPairs d)" and "\<forall>p \<in> set (allPairs d). pterm p = t"
    and "\<not> coin rnd"
  shows "generateQuestion d rnd = None"
proof -
  let ?ps = "allPairs d"
  let ?a = "?ps ! randomIndex (drawA rnd) (length ?ps)"
  from assms(1) have ne: "?ps \<noteq> []" by auto
  then have "randomIndex (drawA rnd) (length ?ps) < length ?ps"
    by (simp add: randomIndex_def)
  then have "?a \<in> set ?ps" by simp
  with assms(2) have "\<forall>p \<in> set ?ps. pterm p = pterm ?a" by simp
  then have "redraw ?ps ?a (drawB rnd) 0 = None"
    using ne by (rule redraw_equal_terms)
  with assms(1,3) show ?thesis
    by (simp add: generateQuestion_def Let_def)
qed

text \<open>
  C5 says that generation terminates for every pool of at least two pairs. With the two
  flashcards A/1 and A/2 the pool has two pairs, both with term \<open>A\<close>; when the coin asks for
  a mismatch, every draw of pairB has the term of pairA and the redraw loop never ends,
  whatever the random numbers are.
\<close>

theorem generateQuestion_hangs_on_equal_terms:
  "length (allPairs \<lparr>flashcards = [\<lparr>front = js ''A'', back' = js ''1''\<rparr>,
                                    \<lparr>front = js ''A'', back' = js ''2''\<rparr>], clean_notes = []\<rparr>) = 2
   \<and> generateQuestion \<lparr>flashcards = [\<lparr>front = js ''A'', back' = js ''1''\<rparr>,
                                     \<lparr>front = js ''A'', back' = js ''2''\<rparr>], clean_notes = []\<rparr>
        (rnd\<lparr>coin := False\<rparr>) = None"
proof -
  let ?d = "\<lparr>flashcards = [\<lparr>front = js ''A'', back' = js ''1''\<rparr>,
                           \<lparr>front = js ''A'', back' = js ''2''\<rparr>], clean_notes = []\<rparr>"
  have ps: "allPairs ?d = [\<lparr>pterm = js ''A'', pdef = js ''1''\<rparr>, \<lparr>pterm = js ''A'', pdef = js ''2''\<rparr>]"
    by (simp add: allPairs_def)
  have "generateQuestion ?d (rnd\<lparr>coin := False\<rparr>) = None"
    by (rule generateQuestion_equal_terms [where t = "js ''A''"]) (simp_all add: ps)
  with ps show ?thesis by simp
qed

section \<open>The Fact-Check state machine\<close>

lemma handleAnswer_correct:
  assumes "currentQuestion s = Some q" and "feedback s = None"
  shows "handleAnswer s (isCorrect q) =
           (s\<lparr>score := score s + 10 * (streak s + 1), streak := streak s + 1,
              feedback := Some Correct\<rparr>,
            Some \<lparr>seenLives = lives s, seenAnswer = isCorrect q, seenQuestion = q\<rparr>)"
  using assms by (simp add: handleAnswer_def)

lemma handleAnswer_wrong:
  assumes "currentQuestion s = Some q" and "feedback s = None" and "a \<noteq> isCorrect q"
  shows "handleAnswer s a =
           (s\<lparr>lives := lives s - 1, streak := 0, feedback := Some Wrong\<rparr>,
            Some \<lparr>seenLives = lives s, seenAnswer = a, seenQuestion = q\<rparr>)"
  using assms by (simp add: handleAnswer_def)

lemma settle_keeps_score:
  assumes "settle d rnd cb s = Some s'"
  shows "score s' = score s \<and> streak s' = streak s \<and> feedback s' = None"
  using assms by (auto simp: settle_def split: if_splits option.splits)

lemma tick_frame:
  "score (tick s) = score s \<and> streak (tick s) = streak s \<and> lives (tick s) = lives s
   \<and> currentQuestion (tick s) = currentQuestion s \<and> feedback (tick s) = feedback s"
  by (simp add: tick_def countdown_def)

lemma ticks_frame:
  "score ((tick ^^ n) s) = score s \<and> streak ((tick ^^ n) s) = streak s
   \<and> lives ((tick ^^ n) s) = lives s
   \<and> currentQuestion ((tick ^^ n) s) = currentQuestion s
   \<and> feedback ((tick ^^ n) s) = feedback s"
  by (induction n) (simp_all add: tick_frame)

text \<open>
  C1: in a playing state with a question and no feedback pending, the answer that equals
  the question's isCorrect adds ten times the streak plus one to the score and raises the
  streak by one. Hence three correct answers in a row from score 0 and streak 0, each
  settled before the next, with any number of timer ticks in between, end at score 60 and
  streak 3.
\<close>

theorem correct_answer_scores:
  assumes "gameState s = Playing" and "currentQuestion s = Some q" and "feedback s = None"
  shows "score (fst (handleAnswer s (isCorrect q))) = score s + 10 * (streak s + 1)
    \<and> streak (fst (handleAnswer s (isCorrect q))) = streak s + 1
    \<and> (score s = 0 \<and> streak s = 0
        \<and> handleAnswer s (isCorrect q) = (s1, Some cb1)
        \<and> settle d r1 cb1 ((tick ^^ n1) s1) = Some s2
        \<and> currentQuestion s2 = Some q2 \<and> gameState ((tick ^^ m1) s2) = Playing
        \<and> handleAnswer ((tick ^^ m1) s2) (isCorrect q2) = (s3, Some cb2)
        \<and> settle d r2 cb2 ((tick ^^ n2) s3) = Some s4
        \<and> currentQuestion s4 = Some q3 \<and> gameState ((tick ^^ m2) s4) = Playing
       \<longrightarrow> score (fst (handleAnswer ((tick ^^ m2) s4) (isCorrect q3))) = 60
           \<and> streak (fst (handleAnswer ((tick ^^ m2) s4) (isCorrect q3))) = 3)"
proof -
  have one: "score (fst (handleAnswer t (isCorrect p))) = score t + 10 * (streak t + 1)
      \<and> streak (fst (handleAnswer t (isCorrect p))) = streak t + 1"
    if "currentQuestion t = Some p" and "feedback t = None" for t p
    using that by (simp add: handleAnswer_correct)
  have three: "score (fst (handleAnswer ((tick ^^ m2) s4) (isCorrect q3))) = 60
           \<and> streak (fst (handleAnswer ((tick ^^ m2) s4) (isCorrect q3))) = 3"
    if z: "score s = 0" "streak s = 0"
      and a1: "handleAnswer s (isCorrect q) = (s1, Some cb1)"
      and t1: "settle d r1 cb1 ((tick ^^ n1) s1) = Some s2" and q2: "currentQuestion s2 = Some q2"
      and a2: "handleAnswer ((tick ^^ m1) s2) (isCorrect q2) = (s3, Some cb2)"
      and t2: "settle d r2 cb2 ((tick ^^ n2) s3) = Some s4" and q3: "currentQuestion s4 = Some q3"
  proof -
    from one [OF assms(2,3)] a1 z have s1: "score s1 = 10" "streak s1 = 1" by simp_all
    from settle_keeps_score [OF t1] s1
    have s2: "score s2 = 10" "streak s2 = 1" "feedback s2 = None"
      by (simp_all add: ticks_frame)
    from q2 s2 have "currentQuestion ((tick ^^ m1) s2) = Some q2"
      and "feedback ((tick ^^ m1) s2) = None"
      by (simp_all add: ticks_frame)
    from one [OF this] a2 s2 have s3: "score s3 = 30" "streak s3 = 2"
      by (simp_all add: ticks_frame)
    from settle_keeps_score [OF t2] s3
    have s4: "score s4 = 30" "streak s4 = 2" "feedback s4 = None"
      by (simp_all add: ticks_frame)
    from q3 s4 have "currentQuestion ((tick ^^ m2) s4) = Some q3"
      and "feedback ((tick ^^ m2) s4) = None"
      by (simp_all add: ticks_frame)
    from one [OF this] s4 show ?thesis by (simp add: ticks_frame)
  qed
  from one [OF assms(2,3)] three show ?thesis by blast
qed

theorem correct_answer_scores_witness:
  "startGame
      \<lparr>flashcards = [\<lparr>front = js ''A'', back' = js ''1''\<rparr>, \<lparr>front = js ''B'', back' = js ''2''\<rparr>,
        \<lparr>front = js ''C'', back' = js ''3''\<rparr>], clean_notes = []\<rparr>
      \<lparr>coin = True, drawA = 0, drawB = (\<lambda>k. k)\<rparr> initialDash
     = Some \<lparr>gameState = Playing, currentQuestion = Some (\<lparr>q_term = js ''A'', q_definition = js ''1'', isCorrect = True\<rparr>),
        score = 0, streak = 0, lives = 3, timeLeft = 30, feedback = None\<rparr>
   \<and> handleAnswer
      \<lparr>gameState = Playing, currentQuestion = Some (\<lparr>q_term = js ''A'', q_definition = js ''1'', isCorrect = True\<rparr>),
        score = 0, streak = 0, lives = 3, timeLeft = 30, feedback = None\<rparr> True
     = (\<lparr>gameState = Playing, currentQuestion = Some (\<lparr>q_term = js ''A'', q_definition = js ''1'', isCorrect = True\<rparr>),
        score = 10, streak = 1, lives = 3, timeLeft = 30, feedback = Some Correct\<rparr>,
        Some \<lparr>seenLives = 3, seenAnswer = True, seenQuestion = \<lparr>q_term = js ''A'', q_definition = js ''1'', isCorrect = True\<rparr>\<rparr>)
   \<and> settle
      \<lparr>flashcards = [\<lparr>front = js ''A'', back' = js ''1''\<rparr>, \<lparr>front = js ''B'', back' = js ''2''\<rparr>,
        \<lparr>front = js ''C'', back' = js ''3''\<rparr>], clean_notes = []\<rparr>
      \<lparr>coin = True, drawA = 4, drawB = (\<lambda>k. k)\<rparr>
      \<lparr>seenLives = 3, seenAnswer = True, seenQuestion = \<lparr>q_term = js ''A'', q_definition = js ''1'', isCorrect = True\<rparr>\<rparr>
      (tick \<lparr>gameState = Playing, currentQuestion = Some (\<lparr>q_term = js ''A'', q_definition = js ''1'', isCorrect = True\<rparr>),
        score = 10, streak = 1, lives = 3, timeLeft = 30, feedback = Some Correct\<rparr>)
     = Some \<lparr>gameState = Playing, currentQuestion = Some (\<lparr>q_term = js ''B'', q_definition = js ''2'', isCorrect = True\<rparr>),
        score = 10, streak = 1, lives = 3, timeLeft = 29, feedback = None\<rparr>
   \<and> handleAnswer
      \<lparr>gameState = Playing, currentQuestion = Some (\<lparr>q_term = js ''B'', q_definition = js ''2'', isCorrect = True\<rparr>),
        score = 10, streak = 1, lives = 3, timeLeft = 29, feedback = None\<rparr> True
     = (\<lparr>gameState = Playing, currentQuestion = Some (\<lparr>q_term = js ''B'', q_definition = js ''2'', isCorrect = True\<rparr>),
        score = 30, streak = 2, lives = 3, timeLeft = 29, feedback = Some Correct\<rparr>,
        Some \<lparr>seenLives = 3, seenAnswer = True, seenQuestion = \<lparr>q_term = js ''B'', q_definition = js ''2'', isCorrect = True\<rparr>\<rparr>)
   \<and> settle
      \<lparr>flashcards = [\<lparr>front = js ''A'', back' = js ''1''\<rparr>, \<lparr>front = js ''B'', back' = js ''2''\<rparr>,
        \<lparr>front = js ''C'', back' = js ''3''\<rparr>], clean_notes = []\<rparr>
      \<lparr>coin = True, drawA = 2, drawB = (\<lambda>k. k)\<rparr>
      \<lparr>seenLives = 3, seenAnswer = True, seenQuestion = \<lparr>q_term = js ''B'', q_definition = js ''2'', isCorrect = True\<rparr>\<rparr>
      (tick \<lparr>gameState = Playing, currentQuestion = Some (\<lparr>q_term = js ''B'', q_definition = js ''2'', isCorrect = True\<rparr>),
        score = 30, streak = 2, lives = 3, timeLeft = 29, feedback = Some Correct\<rparr>)
     = Some \<lparr>gameState = Playing, currentQuestion = Some (\<lparr>q_term = js ''C'', q_definition = js ''3'', isCorrect = True\<rparr>),
        score = 30, streak = 2, lives = 3, timeLeft = 28, feedback = None\<rparr>
   \<and> score (fst (handleAnswer
      \<lparr>gameState = Playing, currentQuestion = Some (\<lparr>q_term = js ''C'', q_definition = js ''3'', isCorrect = True\<rparr>),
        score = 30, streak = 2, lives = 3, timeLeft = 28, feedback = None\<rparr> True)) = 60
   \<and> streak (fst (handleAnswer
      \<lparr>gameState = Playing, currentQuestion = Some (\<lparr>q_term = js ''C'', q_definition = js ''3'', isCorrect = True\<rparr>),
        score = 30, streak = 2, lives = 3, timeLeft = 28, feedback = None\<rparr> True)) = 3"
proof -
  let ?d = "\<lparr>flashcards = [\<lparr>front = js ''A'', back' = js ''1''\<rparr>, \<lparr>front = js ''B'', back' = js ''2''\<rparr>,
        \<lparr>front = js ''C'', back' = js ''3''\<rparr>], clean_notes = []\<rparr>"
  let ?qA = "\<lparr>q_term = js ''A'', q_definition = js ''1'', isCorrect = True\<rparr>"
  let ?qB = "\<lparr>q_term = js ''B'', q_definition = js ''2'', isCorrect = True\<rparr>"
  let ?qC = "\<lparr>q_term = js ''C'', q_definition = js ''3'', isCorrect = True\<rparr>"
  let ?s0 = "\<lparr>gameState = Playing, currentQuestion = Some (\<lparr>q_term = js ''A'', q_definition = js ''1'', isCorrect = True\<rparr>),
        score = 0, streak = 0, lives = 3, timeLeft = 30, feedback = None\<rparr>"
  let ?s1 = "\<lparr>gameState = Playing, currentQuestion = Some (\<lparr>q_term = js ''A'', q_definition = js ''1'', isCorrect = True\<rparr>),
        score = 10, streak = 1, lives = 3, timeLeft = 30, feedback = Some Correct\<rparr>"
  let ?s2 = "\<lparr>gameState = Playing, currentQuestion = Some (\<lparr>q_term = js ''B'', q_definition = js ''2'', isCorrect = True\<rparr>),
        score = 10, streak = 1, lives = 3, timeLeft = 29, feedback = None\<rparr>"
  let ?s3 = "\<lparr>gameState = Playing, currentQuestion = Some (\<lparr>q_term = js ''B'', q_definition = js ''2'', isCorrect = True\<rparr>),
        score = 30, streak = 2, lives = 3, timeLeft = 29, feedback = Some Correct\<rparr>"
  let ?s4 = "\<lparr>gameState = Playing, currentQuestion = Some (\<lparr>q_term = js ''C'', q_definition = js ''3'', isCorrect = True\<rparr>),
        score = 30, streak = 2, lives = 3, timeLeft = 28, feedback = None\<rparr>"
  let ?cb1 = "\<lparr>seenLives = 3, seenAnswer = True, seenQuestion = \<lparr>q_term = js ''A'', q_definition = js ''1'', isCorrect = True\<rparr>\<rparr>"
  let ?cb2 = "\<lparr>seenLives = 3, seenAnswer = True, seenQuestion = \<lparr>q_term = js ''B'', q_definition = js ''2'', isCorrect = True\<rparr>\<rparr>"
  have g: "generateQuestion ?d \<lparr>coin = True, drawA = 0, drawB = (\<lambda>k. k)\<rparr> = Some (Some ?qA)"
    "generateQuestion ?d \<lparr>coin = True, drawA = 4, drawB = (\<lambda>k. k)\<rparr> = Some (Some ?qB)"
    "generateQuestion ?d \<lparr>coin = True, drawA = 2, drawB = (\<lambda>k. k)\<rparr> = Some (Some ?qC)"
    by (simp_all add: generateQuestion_def allPairs_def randomIndex_def)
  have start: "startGame ?d \<lparr>coin = True, drawA = 0, drawB = (\<lambda>k. k)\<rparr> initialDash = Some ?s0"
    by (simp add: startGame_def initialDash_def g)
  have a1: "handleAnswer ?s0 True = (?s1, Some ?cb1)"
    by (simp add: handleAnswer_def)
  have t1: "settle ?d \<lparr>coin = True, drawA = 4, drawB = (\<lambda>k. k)\<rparr> ?cb1 (tick ?s1) = Some ?s2"
    by (simp add: settle_def g tick_def countdown_def)
  have a2: "handleAnswer ?s2 True = (?s3, Some ?cb2)"
    by (simp add: handleAnswer_def)
  have t2: "settle ?d \<lparr>coin = True, drawA = 2, drawB = (\<lambda>k. k)\<rparr> ?cb2 (tick ?s3) = Some ?s4"
    by (simp add: settle_def g tick_def countdown_def)
  have "score (fst (handleAnswer ?s4 (isCorrect ?qC))) = 60
      \<and> streak (fst (handleAnswer ?s4 (isCorrect ?qC))) = 3"
    using correct_answer_scores [of ?s0 ?qA ?s1 ?cb1 ?d "\<lparr>coin = True, drawA = 4, drawB = (\<lambda>k. k)\<rparr>" "Suc 0" ?s2 ?qB 0 ?s3 ?cb2
        "\<lparr>coin = True, drawA = 2, drawB = (\<lambda>k. k)\<rparr>" "Suc 0" ?s4 ?qC 0] a1 t1 a2 t2
    by simp
  with start a1 t1 a2 t2 show ?thesis by simp
qed

text \<open>
  What a wrong answer does by itself: it takes one life, resets the streak, leaves the
  score, and schedules the callback; and the callback of an answer that took the last life
  ends the game on whatever state it fires, so whatever time is left.
\<close>

lemma wrong_answer_effect:
  assumes "currentQuestion s = Some q" and "feedback s = None" and "a \<noteq> isCorrect q"
  shows "\<exists>s1 cb. handleAnswer s a = (s1, Some cb)
      \<and> lives s1 = lives s - 1 \<and> streak s1 = 0 \<and> score s1 = score s
      \<and> feedback s1 = Some Wrong \<and> gameState s1 = gameState s
      \<and> (lives s1 \<le> 0 \<longrightarrow> settle d rnd cb s' = Some (s'\<lparr>feedback := None, gameState := Ended\<rparr>))"
  using assms by (simp add: handleAnswer_wrong settle_def)

text \<open>
  When lives remain, the callback calls generateQuestion, and returns only if that call does.
\<close>

lemma settle_lives_remain:
  assumes "\<not> seenLives cb \<le> (if seenAnswer cb = isCorrect (seenQuestion cb) then 0 else 1)"
  shows "settle d rnd cb s =
           (case generateQuestion d rnd of
              None \<Rightarrow> None
            | Some q \<Rightarrow> Some (s\<lparr>feedback := None, currentQuestion := q\<rparr>))"
  using assms by (simp add: settle_def)

text \<open>
  C3 says that after a wrong answer that leaves lives, the settle delay brings a new
  question and the game goes on. With the two flashcards A/1 and A/2 the game starts with
  the question A/1; the answer \<open>false\<close> is wrong and leaves 2 of 3 lives; when the coin of
  the callback asks for a mismatch, generateQuestion never returns, so the callback never
  stores a question, whatever the random numbers and whatever state it fires on.
\<close>

theorem wrong_answer_settle_hangs:
  "startGame
      \<lparr>flashcards = [\<lparr>front = js ''A'', back' = js ''1''\<rparr>, \<lparr>front = js ''A'', back' = js ''2''\<rparr>],
        clean_notes = []\<rparr>
      \<lparr>coin = True, drawA = 0, drawB = (\<lambda>k. k)\<rparr> initialDash
     = Some \<lparr>gameState = Playing, currentQuestion = Some (\<lparr>q_term = js ''A'', q_definition = js ''1'', isCorrect = True\<rparr>),
        score = 0, streak = 0, lives = 3, timeLeft = 30, feedback = None\<rparr>
   \<and> handleAnswer
      \<lparr>gameState = Playing, currentQuestion = Some (\<lparr>q_term = js ''A'', q_definition = js ''1'', isCorrect = True\<rparr>),
        score = 0, streak = 0, lives = 3, timeLeft = 30, feedback = None\<rparr> False
     = (\<lparr>gameState = Playing, currentQuestion = Some (\<lparr>q_term = js ''A'', q_definition = js ''1'', isCorrect = True\<rparr>),
        score = 0, streak = 0, lives = 2, timeLeft = 30, feedback = Some Wrong\<rparr>,
        Some \<lparr>seenLives = 3, seenAnswer = False, seenQuestion = \<lparr>q_term = js ''A'', q_definition = js ''1'', isCorrect = True\<rparr>\<rparr>)
   \<and> settle
      \<lparr>flashcards = [\<lparr>front = js ''A'', back' = js ''1''\<rparr>, \<lparr>front = js ''A'', back' = js ''2''\<rparr>],
        clean_notes = []\<rparr>
      (rnd\<lparr>coin := False\<rparr>)
      \<lparr>seenLives = 3, seenAnswer = False, seenQuestion = \<lparr>q_term = js ''A'', q_definition = js ''1'', isCorrect = True\<rparr>\<rparr>
      s' = None"
proof -
  let ?d = "\<lparr>flashcards = [\<lparr>front = js ''A'', back' = js ''1''\<rparr>, \<lparr>front = js ''A'', back' = js ''2''\<rparr>],
        clean_notes = []\<rparr>"
  have ps: "allPairs ?d = [\<lparr>pterm = js ''A'', pdef = js ''1''\<rparr>, \<lparr>pterm = js ''A'', pdef = js ''2''\<rparr>]"
    by (simp add: allPairs_def)
  have hang: "generateQuestion ?d (rnd\<lparr>coin := False\<rparr>) = None"
    by (rule generateQuestion_equal_terms [where t = "js ''A''"]) (simp_all add: ps)
  have start: "startGame ?d \<lparr>coin = True, drawA = 0, drawB = (\<lambda>k. k)\<rparr> initialDash = Some \<lparr>gameState = Playing, currentQuestion = Some (\<lparr>q_term = js ''A'', q_definition = js ''1'', isCorrect = True\<rparr>),
        score = 0, streak = 0, lives = 3, timeLeft = 30, feedback = None\<rparr>"
    by (simp add: startGame_def initialDash_def generateQuestion_def ps randomIndex_def)
  have ans: "handleAnswer \<lparr>gameState = Playing, currentQuestion = Some (\<lparr>q_term = js ''A'', q_definition = js ''1'', isCorrect = True\<rparr>),
        score = 0, streak = 0, lives = 3, timeLeft = 30, feedback = None\<rparr> False = (\<lparr>gameState = Playing, currentQuestion = Some (\<lparr>q_term = js ''A'', q_definition = js ''1'', isCorrect = True\<rparr>),
        score = 0, streak = 0, lives = 2, timeLeft = 30, feedback = Some Wrong\<rparr>, Some \<lparr>seenLives = 3, seenAnswer = False, seenQuestion = \<lparr>q_term = js ''A'', q_definition = js ''1'', isCorrect = True\<rparr>\<rparr>)"
    by (simp add: handleAnswer_def)
  have "settle ?d (rnd\<lparr>coin := False\<rparr>) \<lparr>seenLives = 3, seenAnswer = False, seenQuestion = \<lparr>q_term = js ''A'', q_definition = js ''1'', isCorrect = True\<rparr>\<rparr> s' = None"
    by (simp add: settle_lives_remain hang)
  with start ans show ?thesis by simp
qed

text \<open>
  C4: while the game is playing and time is left, a tick takes one second off timeLeft;
  the tick that reaches 0 ends the game, whatever the lives, and any other tick leaves it
  playing, so after a tick the game is never playing with timeLeft 0.
\<close>

theorem tick_counts_down:
  assumes "gameState s = Playing" and "0 < timeLeft s"
  shows "timeLeft (tick s) = timeLeft s - 1
     \<and> (timeLeft (tick s) = 0 \<longrightarrow> gameState (tick s) = Ended)
     \<and> (timeLeft (tick s) \<noteq> 0 \<longrightarrow> gameState (tick s) = Playing)
     \<and> lives (tick s) = lives s
     \<and> \<not> (gameState (tick s) = Playing \<and> timeLeft (tick s) = 0)"
  using assms by (auto simp: tick_def countdown_def)

theorem tick_counts_down_witness:
  "timeLeft (tick \<lparr>gameState = Playing, currentQuestion = None, score = 0, streak = 0, lives = 3,
                    timeLeft = 1, feedback = None\<rparr>) = 0
   \<and> gameState (tick \<lparr>gameState = Playing, currentQuestion = None, score = 0, streak = 0, lives = 3,
                    timeLeft = 1, feedback = None\<rparr>) = Ended
   \<and> lives (tick \<lparr>gameState = Playing, currentQuestion = None, score = 0, streak = 0, lives = 3,
                    timeLeft = 1, feedback = None\<rparr>) = 3
   \<and> timeLeft (tick \<lparr>gameState = Playing, currentQuestion = None, score = 0, streak = 0, lives = 3,
                    timeLeft = 30, feedback = None\<rparr>) = 29
   \<and> gameState (tick \<lparr>gameState = Playing, currentQuestion = None, score = 0, streak = 0, lives = 3,
                    timeLeft = 30, feedback = None\<rparr>) = Playing"
  using tick_counts_down [of "\<lparr>gameState = Playing, currentQuestion = None, score = 0, streak = 0,
      lives = 3, timeLeft = 1, feedback = None\<rparr>"]
    tick_counts_down [of "\<lparr>gameState = Playing, currentQuestion = None, score = 0, streak = 0,
      lives = 3, timeLeft = 30, feedback = None\<rparr>"]
  by simp

section \<open>The Matching state machine\<close>

lemma handleCardClick_ignored:
  assumes "length (flippedCards s) = 2
           \<or> (\<exists>c. findCard (cards s) i = Some c \<and> isMatched c)
           \<or> i \<in> set (flippedCards s)"
  shows "handleCardClick s i = (s, Inr None)"
  using assms by (auto simp: handleCardClick_def)

lemma handleCardClick_appends:
  assumes "\<not> (length (flippedCards s) = 2
           \<or> (\<exists>c. findCard (cards s) i = Some c \<and> isMatched c)
           \<or> i \<in> set (flippedCards s))"
  shows "flippedCards (fst (handleCardClick s i)) = flippedCards s @ [i]
         \<and> cards (fst (handleCardClick s i)) = cards s"
  using assms by (auto simp: handleCardClick_def Let_def split: option.splits)

lemma handleCardClick_cases:
  "fst (handleCardClick s i) = s
   \<or> (length (flippedCards s) \<noteq> 2
      \<and> flippedCards (fst (handleCardClick s i)) = flippedCards s @ [i]
      \<and> cards (fst (handleCardClick s i)) = cards s)"
proof (cases "length (flippedCards s) = 2
           \<or> (\<exists>c. findCard (cards s) i = Some c \<and> isMatched c)
           \<or> i \<in> set (flippedCards s)")
  case True
  then show ?thesis by (simp add: handleCardClick_ignored)
next
  case False
  with handleCardClick_appends [OF False] show ?thesis by simp
qed

lemma handleCardClick_length:
  assumes "length (flippedCards s) \<le> 2"
  shows "length (flippedCards (fst (handleCardClick s i))) \<le> 2"
  using handleCardClick_cases [of s i] assms by auto

lemma step_length:
  assumes "length (flippedCards s) \<le> 2"
  shows "length (flippedCards (step s e)) \<le> 2"
proof (cases e)
  case (Click i)
  with assms show ?thesis by (simp add: handleCardClick_length)
next
  case (Fire t)
  then show ?thesis by (cases t) (simp_all add: fire_def)
next
  case (Init sp sc ns)
  then show ?thesis by (simp add: initGame_def Let_def)
qed

lemma run_length:
  assumes "length (flippedCards s) \<le> 2"
  shows "length (flippedCards (run s evs)) \<le> 2"
  using assms unfolding run_def
  by (induction evs arbitrary: s) (simp_all add: step_length)

lemma handleCardClick_twice:
  "handleCardClick (fst (handleCardClick s i)) i = (fst (handleCardClick s i), Inr None)"
proof (cases "length (flippedCards s) = 2
           \<or> (\<exists>c. findCard (cards s) i = Some c \<and> isMatched c)
           \<or> i \<in> set (flippedCards s)")
  case True
  then have "handleCardClick s i = (s, Inr None)" by (rule handleCardClick_ignored)
  then show ?thesis by simp
next
  case False
  from handleCardClick_appends [OF False]
  have "i \<in> set (flippedCards (fst (handleCardClick s i)))" by simp
  then show ?thesis by (simp add: handleCardClick_ignored)
qed

text \<open>
  C7: whatever events follow initGame (clicks, scheduled callbacks firing, restarts), the
  list of face-up tiles never has more than two entries; a click is ignored when two tiles
  are face-up, when the tile is matched, or when it is already face-up; a second click on
  the same tile is always ignored, so that two clicks on an unmatched tile from an empty
  selection leave exactly that tile selected.
\<close>

theorem selection_at_most_two:
  "length (flippedCards (run (initGame shufflePairs shuffleCards notes) evs)) \<le> 2
   \<and> (length (flippedCards s) = 2
        \<or> (\<exists>c. findCard (cards s) i = Some c \<and> isMatched c)
        \<or> i \<in> set (flippedCards s)
       \<longrightarrow> handleCardClick s i = (s, Inr None))
   \<and> handleCardClick (fst (handleCardClick s i)) i = (fst (handleCardClick s i), Inr None)
   \<and> (flippedCards s = [] \<and> \<not> (\<exists>c. findCard (cards s) i = Some c \<and> isMatched c)
       \<longrightarrow> flippedCards (fst (handleCardClick (fst (handleCardClick s i)) i)) = [i])"
proof -
  have "length (flippedCards (initGame shufflePairs shuffleCards notes)) \<le> 2"
    by (simp add: initGame_def Let_def)
  then have a: "length (flippedCards (run (initGame shufflePairs shuffleCards notes) evs)) \<le> 2"
    by (rule run_length)
  have b: "flippedCards (fst (handleCardClick (fst (handleCardClick s i)) i)) = [i]"
    if "flippedCards s = []" and "\<not> (\<exists>c. findCard (cards s) i = Some c \<and> isMatched c)"
  proof -
    from that have "flippedCards (fst (handleCardClick s i)) = [i]"
      by (auto simp: handleCardClick_def Let_def split: option.splits)
    then show ?thesis by (simp add: handleCardClick_twice)
  qed
  from a b handleCardClick_ignored [of s i] handleCardClick_twice [of s i]
  show ?thesis by blast
qed


theorem selection_at_most_two_witness:
  "initGame (\<lambda>ps. ps) (\<lambda>cs. cs)
      [\<lparr>heading = js ''Cells'', points = [js ''Osmosis - water crossing a membrane'']\<rparr>]
    = \<lparr>cards = [\<lparr>card_id = 0, content = js ''Osmosis'', card_type = TermCard, pairId = 0,
          isFlipped = False, isMatched = False\<rparr>,
       \<lparr>card_id = 1, content = js ''water crossing a membrane'', card_type = DefinitionCard, pairId = 0,
          isFlipped = False, isMatched = False\<rparr>,
       \<lparr>card_id = 2, content = js ''Cells'', card_type = TermCard, pairId = 1,
          isFlipped = False, isMatched = False\<rparr>,
       \<lparr>card_id = 3, content = js ''Osmosis - water crossing a membrane'', card_type = DefinitionCard, pairId = 1,
          isFlipped = False, isMatched = False\<rparr>],
      flippedCards = [], matches = 0, moves = 0\<rparr>
   \<and> flippedCards (run (initGame (\<lambda>ps. ps) (\<lambda>cs. cs)
      [\<lparr>heading = js ''Cells'', points = [js ''Osmosis - water crossing a membrane'']\<rparr>])
        [Click 0, Click 0, Click 2, Click 3, Fire MismatchTimeout, Click 0, Click 1, Click 2]) = [0, 1]
   \<and> handleCardClick
        \<lparr>cards = [\<lparr>card_id = 0, content = js ''Osmosis'', card_type = TermCard, pairId = 0,
          isFlipped = False, isMatched = False\<rparr>,
       \<lparr>card_id = 1, content = js ''water crossing a membrane'', card_type = DefinitionCard, pairId = 0,
          isFlipped = False, isMatched = False\<rparr>,
       \<lparr>card_id = 2, content = js ''Cells'', card_type = TermCard, pairId = 1,
          isFlipped = False, isMatched = False\<rparr>,
       \<lparr>card_id = 3, content = js ''Osmosis - water crossing a membrane'', card_type = DefinitionCard, pairId = 1,
          isFlipped = False, isMatched = False\<rparr>],
      flippedCards = [0, 2], matches = 0, moves = 1\<rparr> 3
      = (\<lparr>cards = [\<lparr>card_id = 0, content = js ''Osmosis'', card_type = TermCard, pairId = 0,
          isFlipped = False, isMatched = False\<rparr>,
       \<lparr>card_id = 1, content = js ''water crossing a membrane'', card_type = DefinitionCard, pairId = 0,
          isFlipped = False, isMatched = False\<rparr>,
       \<lparr>card_id = 2, content = js ''Cells'', card_type = TermCard, pairId = 1,
          isFlipped = False, isMatched = False\<rparr>,
       \<lparr>card_id = 3, content = js ''Osmosis - water crossing a membrane'', card_type = DefinitionCard, pairId = 1,
          isFlipped = False, isMatched = False\<rparr>],
      flippedCards = [0, 2], matches = 0, moves = 1\<rparr>, Inr None)
   \<and> flippedCards (fst (handleCardClick (fst (handleCardClick
        \<lparr>cards = [\<lparr>card_id = 0, content = js ''Osmosis'', card_type = TermCard, pairId = 0,
          isFlipped = False, isMatched = False\<rparr>,
       \<lparr>card_id = 1, content = js ''water crossing a membrane'', card_type = DefinitionCard, pairId = 0,
          isFlipped = False, isMatched = False\<rparr>,
       \<lparr>card_id = 2, content = js ''Cells'', card_type = TermCard, pairId = 1,
          isFlipped = False, isMatched = False\<rparr>,
       \<lparr>card_id = 3, content = js ''Osmosis - water crossing a membrane'', card_type = DefinitionCard, pairId = 1,
          isFlipped = False, isMatched = False\<rparr>],
      flippedCards = [], matches = 0, moves = 0\<rparr> 0)) 0)) = [0]"
proof -
  let ?g0 = "\<lparr>cards = [\<lparr>card_id = 0, content = js ''Osmosis'', card_type = TermCard, pairId = 0,
          isFlipped = False, isMatched = False\<rparr>,
       \<lparr>card_id = 1, content = js ''water crossing a membrane'', card_type = DefinitionCard, pairId = 0,
          isFlipped = False, isMatched = False\<rparr>,
       \<lparr>card_id = 2, content = js ''Cells'', card_type = TermCard, pairId = 1,
          isFlipped = False, isMatched = False\<rparr>,
       \<lparr>card_id = 3, content = js ''Osmosis - water crossing a membrane'', card_type = DefinitionCard, pairId = 1,
          isFlipped = False, isMatched = False\<rparr>],
      flippedCards = [], matches = 0, moves = 0\<rparr>"
  let ?g2 = "\<lparr>cards = [\<lparr>card_id = 0, content = js ''Osmosis'', card_type = TermCard, pairId = 0,
          isFlipped = False, isMatched = False\<rparr>,
       \<lparr>card_id = 1, content = js ''water crossing a membrane'', card_type = DefinitionCard, pairId = 0,
          isFlipped = False, isMatched = False\<rparr>,
       \<lparr>card_id = 2, content = js ''Cells'', card_type = TermCard, pairId = 1,
          isFlipped = False, isMatched = False\<rparr>,
       \<lparr>card_id = 3, content = js ''Osmosis - water crossing a membrane'', card_type = DefinitionCard, pairId = 1,
          isFlipped = False, isMatched = False\<rparr>],
      flippedCards = [0, 2], matches = 0, moves = 1\<rparr>"
  have init: "initGame (\<lambda>ps. ps) (\<lambda>cs. cs)
      [\<lparr>heading = js ''Cells'', points = [js ''Osmosis - water crossing a membrane'']\<rparr>] = ?g0"
    by (simp add: initGame_def gamePairs_def extractedPairs_def fallbackPairs_def
        gamePointPairs_def pairCards_def substring0_def js_def isDelimiter_def trim_def
        isWhiteSpace_def)
  have r: "flippedCards (run ?g0 [Click 0, Click 0, Click 2, Click 3, Fire MismatchTimeout, Click 0, Click 1, Click 2]) = [0, 1]"
    by (simp add: run_def handleCardClick_def findCard_def fire_def)
  have "length (flippedCards (run (initGame (\<lambda>ps. ps) (\<lambda>cs. cs)
      [\<lparr>heading = js ''Cells'', points = [js ''Osmosis - water crossing a membrane'']\<rparr>]) [Click 0, Click 0, Click 2, Click 3, Fire MismatchTimeout, Click 0, Click 1, Click 2])) \<le> 2
      \<and> handleCardClick ?g2 3 = (?g2, Inr None)"
    using selection_at_most_two [of "\<lambda>ps. ps" "\<lambda>cs. cs" "[\<lparr>heading = js ''Cells'', points = [js ''Osmosis - water crossing a membrane'']\<rparr>]" "[Click 0, Click 0, Click 2, Click 3, Fire MismatchTimeout, Click 0, Click 1, Click 2]" ?g2 3]
    by simp
  moreover have "flippedCards (fst (handleCardClick (fst (handleCardClick ?g0 0)) 0)) = [0]"
    using selection_at_most_two [of "\<lambda>ps. ps" "\<lambda>cs. cs" "[\<lparr>heading = js ''Cells'', points = [js ''Osmosis - water crossing a membrane'']\<rparr>]" "[]" ?g0 0]
    by (simp add: handleCardClick_def findCard_def)
  ultimately show ?thesis using init r by simp
qed

section \<open>The Practice session\<close>

text \<open>
  C9: the Show Answers button changes nothing but the global flag: the recorded
  selections, the drafts and the per-question reveal flags stay as they are, and pressing
  it twice gives back the state, hence the answered state, mark, colours and reveal
  state of every question. While the flag is on every question counts as answered, every
  short answer is revealed, the options are coloured by correctness alone, and a click on an
  option records nothing.
\<close>

theorem show_answers_frame:
  "selectedOptions (toggleShowAnswers s) = selectedOptions s
   \<and> shortAnswers (toggleShowAnswers s) = shortAnswers s
   \<and> revealedShort (toggleShowAnswers s) = revealedShort s
   \<and> showOverallAnswers (toggleShowAnswers s) = (\<not> showOverallAnswers s)
   \<and> toggleShowAnswers (toggleShowAnswers s) = s
   \<and> hasAnswered (toggleShowAnswers (toggleShowAnswers s)) idx = hasAnswered s idx
   \<and> questionMark q (toggleShowAnswers (toggleShowAnswers s)) idx = questionMark q s idx
   \<and> optionColour q (toggleShowAnswers (toggleShowAnswers s)) idx opt = optionColour q s idx opt
   \<and> optionDisabled (toggleShowAnswers (toggleShowAnswers s)) idx = optionDisabled s idx
   \<and> isRevealed (toggleShowAnswers (toggleShowAnswers s)) idx = isRevealed s idx
   \<and> (\<not> showOverallAnswers s \<longrightarrow>
        hasAnswered (toggleShowAnswers s) idx
        \<and> isRevealed (toggleShowAnswers s) idx
        \<and> optionColour q (toggleShowAnswers s) idx opt
            = (if opt = correct_answer q then Green else Slate)
        \<and> handleOptionClick questions (toggleShowAnswers s) idx opt = Inr (toggleShowAnswers s))"
proof -
  have twice: "toggleShowAnswers (toggleShowAnswers s) = s"
    by (simp add: toggleShowAnswers_def)
  have frame: "selectedOptions (toggleShowAnswers s) = selectedOptions s
      \<and> shortAnswers (toggleShowAnswers s) = shortAnswers s
      \<and> revealedShort (toggleShowAnswers s) = revealedShort s
      \<and> showOverallAnswers (toggleShowAnswers s) = (\<not> showOverallAnswers s)"
    by (simp add: toggleShowAnswers_def)
  have on: "hasAnswered (toggleShowAnswers s) idx
        \<and> isRevealed (toggleShowAnswers s) idx
        \<and> optionColour q (toggleShowAnswers s) idx opt
            = (if opt = correct_answer q then Green else Slate)
        \<and> handleOptionClick questions (toggleShowAnswers s) idx opt = Inr (toggleShowAnswers s)"
    if "\<not> showOverallAnswers s"
    using that
    by (simp add: toggleShowAnswers_def hasAnswered_def isRevealed_def optionColour_def
        handleOptionClick_def)
  from frame on show ?thesis by (simp add: twice)
qed

theorem show_answers_frame_witness:
  "selectedOptions (toggleShowAnswers
      \<lparr>selectedOptions = [0 \<mapsto> js ''Paris''], shortAnswers = [0 \<mapsto> js ''draft''],
       revealedShort = [1 \<mapsto> True], showOverallAnswers = False\<rparr>) 0 = Some (js ''Paris'')
   \<and> toggleShowAnswers (toggleShowAnswers
      \<lparr>selectedOptions = [0 \<mapsto> js ''Paris''], shortAnswers = [0 \<mapsto> js ''draft''],
       revealedShort = [1 \<mapsto> True], showOverallAnswers = False\<rparr>)
     = \<lparr>selectedOptions = [0 \<mapsto> js ''Paris''], shortAnswers = [0 \<mapsto> js ''draft''],
        revealedShort = [1 \<mapsto> True], showOverallAnswers = False\<rparr>
   \<and> hasAnswered (toggleShowAnswers
      \<lparr>selectedOptions = [0 \<mapsto> js ''Paris''], shortAnswers = [0 \<mapsto> js ''draft''],
       revealedShort = [1 \<mapsto> True], showOverallAnswers = False\<rparr>) 1
   \<and> \<not> hasAnswered (toggleShowAnswers (toggleShowAnswers
      \<lparr>selectedOptions = [0 \<mapsto> js ''Paris''], shortAnswers = [0 \<mapsto> js ''draft''],
       revealedShort = [1 \<mapsto> True], showOverallAnswers = False\<rparr>)) 1
   \<and> optionColour \<lparr>mcq_question = js ''Capital?'', options = [js ''Paris'', js ''Rome''],
                     correct_answer = js ''Rome''\<rparr>
        (toggleShowAnswers
          \<lparr>selectedOptions = [0 \<mapsto> js ''Paris''], shortAnswers = [0 \<mapsto> js ''draft''],
           revealedShort = [1 \<mapsto> True], showOverallAnswers = False\<rparr>) 0 (js ''Rome'') = Green"
  using show_answers_frame [of
      "\<lparr>selectedOptions = [0 \<mapsto> js ''Paris''], shortAnswers = [0 \<mapsto> js ''draft''],
        revealedShort = [1 \<mapsto> True], showOverallAnswers = False\<rparr>" 1
      "\<lparr>mcq_question = js ''Capital?'', options = [js ''Paris'', js ''Rome''],
        correct_answer = js ''Rome''\<rparr>" "js ''Rome''"]
    show_answers_frame [of
      "\<lparr>selectedOptions = [0 \<mapsto> js ''Paris''], shortAnswers = [0 \<mapsto> js ''draft''],
        revealedShort = [1 \<mapsto> True], showOverallAnswers = False\<rparr>" 0
      "\<lparr>mcq_question = js ''Capital?'', options = [js ''Paris'', js ''Rome''],
        correct_answer = js ''Rome''\<rparr>" "js ''Rome''"]
  by (simp add: hasAnswered_def)

section \<open>The daily limit\<close>

text \<open>
  What the three functions of the daily limit do: checkLimit refuses exactly when the usage
  is dated today and its count has reached 5; incrementUsage starts again at 1 on a usage
  of another day and adds 1 on the same day; a stored usage of another day is loaded as 0
  sessions today.
\<close>

lemma daily_usage_functions:
  "(checkLimit u today = False \<longleftrightarrow> lastDate u = today \<and> count u \<ge> 5)
   \<and> (lastDate u \<noteq> today \<longrightarrow> incrementUsage u today = \<lparr>count = 1, lastDate = today\<rparr>)
   \<and> (lastDate u = today \<longrightarrow> incrementUsage u today = \<lparr>count = count u + 1, lastDate = today\<rparr>)
   \<and> (lastDate u \<noteq> today \<longrightarrow>
         loadUsage (Stored u) today = Inr \<lparr>count = 0, lastDate = today\<rparr>)
   \<and> (lastDate u = today \<longrightarrow> loadUsage (Stored u) today = Inr u)"
  by (simp add: checkLimit_def DAILY_LIMIT_def incrementUsage_def loadUsage_def)

text \<open>
  What the two controls let through: a click gets past both the control and checkLimit
  exactly when the count is below 5 (and, for the Analyze button, some text is pasted),
  whatever the date of the usage.
\<close>

lemma click_proceeds_iff:
  "(clickAnalyze pastedContent u today = Proceeds \<longleftrightarrow> trim pastedContent \<noteq> [] \<and> count u < 5)
   \<and> (clickUpload u today = Proceeds \<longleftrightarrow> count u < 5)"
  by (auto simp: clickAnalyze_def clickUpload_def analyzeDisabled_def uploadInert_def
      checkLimit_def DAILY_LIMIT_def)

text \<open>
  C10 says that a session is blocked exactly when the usage is dated today and has count
  at least 5. Five sessions on Tuesday bring the usage held by the component to count 5;
  when the page stays open into Wednesday, that usage is dated another day and checkLimit
  lets it pass, but the upload area and the Analyze button test the count alone and stay
  dead, so no session can be started.
\<close>

theorem stale_usage_still_blocks:
  "incrementUsage (incrementUsage (incrementUsage (incrementUsage (incrementUsage (\<lparr>count = 0, lastDate = js ''Tue Nov 03 2026''\<rparr>)
        (js ''Tue Nov 03 2026''))
        (js ''Tue Nov 03 2026''))
        (js ''Tue Nov 03 2026''))
        (js ''Tue Nov 03 2026''))
        (js ''Tue Nov 03 2026'')
     = \<lparr>count = 5, lastDate = js ''Tue Nov 03 2026''\<rparr>
   \<and> checkLimit \<lparr>count = 5, lastDate = js ''Tue Nov 03 2026''\<rparr> (js ''Wed Nov 04 2026'') = True
   \<and> clickUpload \<lparr>count = 5, lastDate = js ''Tue Nov 03 2026''\<rparr> (js ''Wed Nov 04 2026'') = NotClickable
   \<and> clickAnalyze pastedContent \<lparr>count = 5, lastDate = js ''Tue Nov 03 2026''\<rparr> (js ''Wed Nov 04 2026'') = NotClickable"
  by (simp add: incrementUsage_def checkLimit_def clickUpload_def clickAnalyze_def
      uploadInert_def analyzeDisabled_def DAILY_LIMIT_def js_def)

end
